theory Spec2Isabelle
  imports Main
begin

section \<open>The element tree of \<^verbatim>\<open>xml.etree.ElementTree\<close>\<close>

text \<open>
  \<^verbatim>\<open>rss_parser\<close> reads three things of an element: its tag, its \<^verbatim>\<open>.text\<close> (which is
  \<^verbatim>\<open>None\<close> for an element without character data, such as \<^verbatim>\<open><pubDate></pubDate>\<close>)
  and its children in document order. Strings are byte lists here.
\<close>

datatype element = Element (tag: string) (etext: "string option") (children: "element list")

text \<open>
  \<^verbatim>\<open>ET.fromstring\<close> belongs to the standard library, not to this program. It is a
  parameter of the model, with the three ways the call ends: it raises \<^verbatim>\<open>ET.ParseError\<close>
  with a message, it raises \<^verbatim>\<open>UnicodeEncodeError\<close> with a message (a string that holds a
  lone surrogate cannot be encoded for the parser), or it returns the root element. A lone
  surrogate such as U+D800 is written here with its three bytes \<open>ED A0 80\<close>.
\<close>

datatype xml_exception = ParseError string | UnicodeEncodeError string

type_synonym xml_parser = "string \<Rightarrow> xml_exception + element"

text \<open>\<^verbatim>\<open>e.find(name)\<close> and \<^verbatim>\<open>e.findall(name)\<close> with a plain tag name: direct children only.\<close>

definition find_elem :: "string \<Rightarrow> element \<Rightarrow> element option" where
  "find_elem name e = List.find (\<lambda>c. tag c = name) (children e)"

definition findall :: "string \<Rightarrow> element \<Rightarrow> element list" where
  "findall name e = filter (\<lambda>c. tag c = name) (children e)"

section \<open>Python values\<close>

text \<open>The exceptions that leave \<^verbatim>\<open>rss_parser\<close>. \<open>AttributeError\<close> carries the name of the
  attribute that was read on \<^verbatim>\<open>None\<close>; \<open>Uncaught\<close> is an exception of the library that
  no handler of \<^verbatim>\<open>rss_parser\<close> catches and that leaves it as it is.\<close>

datatype error = UnhandledException string | AttributeError string | Uncaught xml_exception

text \<open>An f-string field \<^verbatim>\<open>{v}\<close> for a value that is a string or \<^verbatim>\<open>None\<close>.\<close>

fun fmt :: "string option \<Rightarrow> string" where
  "fmt None = ''None''"
| "fmt (Some s) = s"

text \<open>Truth value of a string or \<^verbatim>\<open>None\<close> in a condition.\<close>

fun truthy :: "string option \<Rightarrow> bool" where
  "truthy None = False"
| "truthy (Some s) = (s \<noteq> [])"

text \<open>\<^verbatim>\<open>sep.join(xs)\<close>.\<close>

fun join :: "string \<Rightarrow> string list \<Rightarrow> string" where
  "join sep [] = []"
| "join sep [x] = x"
| "join sep (x # y # ys) = x @ sep @ join sep (y # ys)"

text \<open>\<^verbatim>\<open>xs[:stop]\<close>: a negative stop counts from the end, and both ends are clamped.\<close>

definition slice_to :: "int \<Rightarrow> 'a list \<Rightarrow> 'a list" where
  "slice_to stop xs =
     (let n = int (length xs);
          s = (if stop < 0 then max 0 (stop + n) else min stop n)
      in take (nat s) xs)"

section \<open>\<^verbatim>\<open>json.dumps(obj, indent=2, ensure_ascii=False)\<close>\<close>

text \<open>The values the program serialises: strings, \<^verbatim>\<open>None\<close>, lists and dictionaries with
  string keys in insertion order.\<close>

datatype json = JNull | JStr string | JList "json list" | JDict "(string \<times> json) list"

definition hexdigit :: "nat \<Rightarrow> char" where
  "hexdigit n = ''0123456789abcdef'' ! (n mod 16)"

definition escape_char :: "char \<Rightarrow> string" where
  "escape_char c =
     (if c = CHR 0x22 then [CHR 0x5C, CHR 0x22]
      else if c = CHR 0x5C then [CHR 0x5C, CHR 0x5C]
      else if c = CHR 0x0A then [CHR 0x5C, CHR ''n'']
      else if c = CHR 0x0D then [CHR 0x5C, CHR ''r'']
      else if c = CHR 0x09 then [CHR 0x5C, CHR ''t'']
      else if c = CHR 0x08 then [CHR 0x5C, CHR ''b'']
      else if c = CHR 0x0C then [CHR 0x5C, CHR ''f'']
      else if (of_char c :: nat) < 32
        then [CHR 0x5C, CHR ''u'', CHR ''0'', CHR ''0'',
              hexdigit (of_char c div 16), hexdigit (of_char c)]
      else [c])"

definition encode_basestring :: "string \<Rightarrow> string" where
  "encode_basestring s = [CHR 0x22] @ concat (map escape_char s) @ [CHR 0x22]"

definition newline_indent :: "nat \<Rightarrow> string" where
  "newline_indent level = CHR 0x0A # replicate (2 * level) CHR '' ''"

fun iterencode :: "nat \<Rightarrow> json \<Rightarrow> string" where
  "iterencode level JNull = ''null''"
| "iterencode level (JStr s) = encode_basestring s"
| "iterencode level (JList vs) =
     (if vs = [] then ''[]''
      else ''['' @ newline_indent (Suc level)
           @ join ('','' @ newline_indent (Suc level)) (map (iterencode (Suc level)) vs)
           @ newline_indent level @ '']'')"
| "iterencode level (JDict kvs) =
     (if kvs = [] then ''{}''
      else ''{'' @ newline_indent (Suc level)
           @ join ('','' @ newline_indent (Suc level))
               (map (\<lambda>(k, v). encode_basestring k @ '': '' @ iterencode (Suc level) v) kvs)
           @ newline_indent level @ ''}'')"

definition dumps :: "json \<Rightarrow> string" where
  "dumps obj = iterencode 0 obj"

text \<open>A string or \<^verbatim>\<open>None\<close> as a JSON value.\<close>

fun jv :: "string option \<Rightarrow> json" where
  "jv None = JNull"
| "jv (Some s) = JStr s"

section \<open>\<^verbatim>\<open>rss_parser\<close>\<close>

text \<open>\<^verbatim>\<open>[cat.text for cat in categories if cat.text]\<close>\<close>

fun cat_texts :: "element list \<Rightarrow> string list" where
  "cat_texts [] = []"
| "cat_texts (cat # categories) =
     (if truthy (etext cat) then fmt (etext cat) # cat_texts categories
      else cat_texts categories)"

text \<open>\<^verbatim>\<open>e.find(name).text if e.find(name) is not None else ""\<close>\<close>

definition text_or_empty :: "string \<Rightarrow> element \<Rightarrow> string option" where
  "text_or_empty name e =
     (case find_elem name e of None \<Rightarrow> Some [] | Some c \<Rightarrow> etext c)"

text \<open>\<^verbatim>\<open>x = channel.find(name); if x is not None and x.text: output.append(f"{label}{x.text}")\<close>\<close>

definition append_field :: "string \<Rightarrow> element option \<Rightarrow> string list \<Rightarrow> string list" where
  "append_field label x output =
     (case x of
        None \<Rightarrow> output
      | Some e \<Rightarrow> if truthy (etext e) then output @ [label @ fmt (etext e)] else output)"

text \<open>Lines 64 to 84: the channel's lines.\<close>

definition channel_lines ::
  "element \<Rightarrow> string option \<Rightarrow> string option \<Rightarrow> string list \<Rightarrow> string list" where
  "channel_lines channel title link cats =
     (let output = [''Feed: '' @ fmt title, ''Link: '' @ fmt link];
          output = (if cats \<noteq> [] then output @ [''Categories: '' @ join '', '' cats]
                    else output);
          output = append_field ''Last Build Date: '' (find_elem ''lastBuildDate'' channel) output;
          output = append_field ''Publish Date: '' (find_elem ''pubDate'' channel) output;
          output = append_field ''Language: '' (find_elem ''language'' channel) output;
          output = append_field ''Editor: '' (find_elem ''managingEditor'' channel) output;
          output = append_field ''Description: '' (find_elem ''description'' channel) output
      in output)"

text \<open>Lines 87 to 106: one round of the loop over the items, in text mode.\<close>

definition item_body :: "element \<Rightarrow> string list \<Rightarrow> string list" where
  "item_body item output =
     (let title_text = text_or_empty ''title'' item;
          author = text_or_empty ''author'' item;
          pub_date = text_or_empty ''pubDate'' item;
          link = text_or_empty ''link'' item;
          categories = cat_texts (findall ''category'' item);
          categories_text = join '', '' categories;
          description = text_or_empty ''description'' item;
          output = output @ [''Title: '' @ fmt title_text];
          output = (if truthy author then output @ [''Author: '' @ fmt author] else output);
          output = (if truthy pub_date then output @ [''Published: '' @ fmt pub_date]
                    else output);
          output = (if truthy link then output @ [''Link: '' @ fmt link] else output);
          output = (if categories_text \<noteq> []
                    then output @ [''Categories: '' @ categories_text] else output);
          output = output @ [''''];
          output = output @ [''Description: '' @ fmt description];
          output = output @ ['''']
      in output)"

fun item_loop :: "element list \<Rightarrow> string list \<Rightarrow> string list" where
  "item_loop [] output = output"
| "item_loop (item # items) output = item_loop items (item_body item output)"

text \<open>Lines 55 to 61: one round of the loop over the items, in JSON mode. A dictionary is
  an association list in insertion order; \<^verbatim>\<open>json_output['items'].append(item_dict)\<close>
  extends the list stored under \<^verbatim>\<open>items\<close>.\<close>

definition item_dict :: "element \<Rightarrow> (string \<times> json) list" where
  "item_dict item =
     [(''title'', jv (text_or_empty ''title'' item)),
      (''pubDate'', jv (text_or_empty ''pubDate'' item)),
      (''link'', jv (text_or_empty ''link'' item)),
      (''description'', jv (text_or_empty ''description'' item))]"

fun list_append :: "json \<Rightarrow> json \<Rightarrow> json" where
  "list_append (JList vs) v = JList (vs @ [v])"
| "list_append j v = j"

definition items_append :: "(string \<times> json) list \<Rightarrow> json \<Rightarrow> (string \<times> json) list" where
  "items_append d v =
     map (\<lambda>(k, x). if k = ''items'' then (k, list_append x v) else (k, x)) d"

fun json_loop :: "element list \<Rightarrow> (string \<times> json) list \<Rightarrow> (string \<times> json) list" where
  "json_loop [] json_output = json_output"
| "json_loop (item # items) json_output =
     json_loop items (items_append json_output (JDict (item_dict item)))"

text \<open>Lines 43 and 44: \<^verbatim>\<open>if limit is not None: items = items[:limit]\<close>\<close>

definition apply_limit :: "int option \<Rightarrow> element list \<Rightarrow> element list" where
  "apply_limit limit items = (case limit of None \<Rightarrow> items | Some n \<Rightarrow> slice_to n items)"

text \<open>Lines 37 to 108: the body of the \<^verbatim>\<open>try\<close> once the document is parsed. Reading
  \<^verbatim>\<open>.find\<close> or \<^verbatim>\<open>.text\<close> on \<^verbatim>\<open>None\<close> raises \<^verbatim>\<open>AttributeError\<close>, which the handler
  of \<^verbatim>\<open>ET.ParseError\<close> does not catch.\<close>

definition rss_tree :: "element \<Rightarrow> int option \<Rightarrow> bool \<Rightarrow> error + string list" where
  "rss_tree root limit json =
     (case find_elem ''channel'' root of
        None \<Rightarrow> Inl (AttributeError ''find'')
      | Some channel \<Rightarrow>
     (case find_elem ''title'' channel of
        None \<Rightarrow> Inl (AttributeError ''text'')
      | Some t \<Rightarrow>
     (case find_elem ''link'' channel of
        None \<Rightarrow> Inl (AttributeError ''text'')
      | Some l \<Rightarrow>
       (let title = etext t;
            link = etext l;
            categories = findall ''category'' channel;
            cats = cat_texts categories;
            items = findall ''item'' channel;
            items = apply_limit limit items
        in if json
           then Inr [dumps (JDict (json_loop items
                  [(''title'', jv title),
                   (''link'', jv link),
                   (''description'', jv (text_or_empty ''description'' channel)),
                   (''items'', JList [])]))]
           else Inr (item_loop items (channel_lines channel title link cats))))))"

text \<open>Lines 35 to 110: the only handler is \<^verbatim>\<open>except ET.ParseError as e\<close>, which raises
  \<^verbatim>\<open>UnhandledException(e)\<close>; every other exception passes through.\<close>

definition rss_parser ::
  "xml_parser \<Rightarrow> string \<Rightarrow> int option \<Rightarrow> bool \<Rightarrow> error + string list" where
  "rss_parser fromstring xml limit json =
     (case fromstring xml of
        Inl (ParseError e) \<Rightarrow> Inl (UnhandledException e)
      | Inl (UnicodeEncodeError e) \<Rightarrow> Inl (Uncaught (UnicodeEncodeError e))
      | Inr root \<Rightarrow> rss_tree root limit json)"

section \<open>The specification's wording\<close>

text \<open>The values of the \<^verbatim>\<open>category\<close> children of an element that have non-empty text, in
  document order, and the \<^verbatim>\<open>Categories:\<close> line made of them, present only if there is one.\<close>

definition spec_categories :: "element \<Rightarrow> string list" where
  "spec_categories e = map the (filter truthy (map etext (findall ''category'' e)))"

definition spec_categories_line :: "element \<Rightarrow> string list" where
  "spec_categories_line e =
     (if spec_categories e = [] then []
      else [''Categories: '' @ join '', '' (spec_categories e)])"

text \<open>A line that is emitted only if its value is non-empty.\<close>

definition spec_optional_line :: "string \<Rightarrow> string option \<Rightarrow> string list" where
  "spec_optional_line label v = (if truthy v then [label @ the v] else [])"

text \<open>A field of an item as section 3 has it: a string, empty when the element is missing
  and empty when it has no text.\<close>

definition spec_field :: "string \<Rightarrow> element \<Rightarrow> string" where
  "spec_field name item =
     (case find_elem name item of
        None \<Rightarrow> []
      | Some c \<Rightarrow> (case etext c of None \<Rightarrow> [] | Some s \<Rightarrow> s))"

definition spec_nonempty_line :: "string \<Rightarrow> string \<Rightarrow> string list" where
  "spec_nonempty_line label s = (if s = [] then [] else [label @ s])"

text \<open>The block of one item in text mode, line by line as section 4.1 lists it.\<close>

definition spec_item_block :: "element \<Rightarrow> string list" where
  "spec_item_block item =
     [''Title: '' @ spec_field ''title'' item]
     @ spec_nonempty_line ''Author: '' (spec_field ''author'' item)
     @ spec_nonempty_line ''Published: '' (spec_field ''pubDate'' item)
     @ spec_nonempty_line ''Link: '' (spec_field ''link'' item)
     @ spec_categories_line item
     @ ['''']
     @ [''Description: '' @ spec_field ''description'' item]
     @ ['''']"

text \<open>The JSON document written out with its line breaks and leading blanks: two blanks for
  a member of the document, four for an item, six for a member of an item.\<close>

definition quoted :: "string \<Rightarrow> string" where
  "quoted s = [CHR 0x22] @ s @ [CHR 0x22]"

definition spec_json_value :: "string option \<Rightarrow> string" where
  "spec_json_value v = (case v of None \<Rightarrow> ''null'' | Some s \<Rightarrow> encode_basestring s)"

definition spec_json_item :: "element \<Rightarrow> string" where
  "spec_json_item item =
     ''{'' @ [CHR 0x0A]
     @ ''      '' @ quoted ''title'' @ '': '' @ spec_json_value (text_or_empty ''title'' item)
     @ '','' @ [CHR 0x0A]
     @ ''      '' @ quoted ''pubDate'' @ '': '' @ spec_json_value (text_or_empty ''pubDate'' item)
     @ '','' @ [CHR 0x0A]
     @ ''      '' @ quoted ''link'' @ '': '' @ spec_json_value (text_or_empty ''link'' item)
     @ '','' @ [CHR 0x0A]
     @ ''      '' @ quoted ''description'' @ '': ''
     @ spec_json_value (text_or_empty ''description'' item) @ [CHR 0x0A]
     @ ''    }''"

definition spec_json_document ::
  "string option \<Rightarrow> string option \<Rightarrow> string option \<Rightarrow> element list \<Rightarrow> string" where
  "spec_json_document title link description items =
     ''{'' @ [CHR 0x0A]
     @ ''  '' @ quoted ''title'' @ '': '' @ spec_json_value title @ '','' @ [CHR 0x0A]
     @ ''  '' @ quoted ''link'' @ '': '' @ spec_json_value link @ '','' @ [CHR 0x0A]
     @ ''  '' @ quoted ''description'' @ '': '' @ spec_json_value description
     @ '','' @ [CHR 0x0A]
     @ ''  '' @ quoted ''items'' @ '': ''
     @ (if items = [] then ''[]''
        else ''['' @ [CHR 0x0A] @ ''    ''
             @ join ('','' @ [CHR 0x0A] @ ''    '') (map spec_json_item items)
             @ [CHR 0x0A] @ ''  ]'')
     @ [CHR 0x0A] @ ''}''"

section \<open>Example documents\<close>

text \<open>A stand-in for \<^verbatim>\<open>ET.fromstring\<close> on finitely many documents: each listed text parses
  to the tree beside it, every other text raises the exception \<open>e\<close>.\<close>

definition table_parser :: "xml_exception \<Rightarrow> (string \<times> element) list \<Rightarrow> xml_parser" where
  "table_parser e table xml =
     (case map_of table xml of None \<Rightarrow> Inl e | Some root \<Rightarrow> Inr root)"

text \<open>An element with text and no children, and the \<^verbatim>\<open>rss\<close> document around the children
  of its channel.\<close>

definition leaf :: "string \<Rightarrow> string \<Rightarrow> element" where
  "leaf name s = Element name (Some s) []"

definition rss_doc :: "element list \<Rightarrow> element" where
  "rss_doc cs = Element ''rss'' None [Element ''channel'' None cs]"

text \<open>A feed with three items.\<close>

definition feed3_xml :: string where
  "feed3_xml = ''<rss><channel><title>T</title><link>L</link><item><title>a</title></item><item><title>b</title></item><item><title>c</title></item></channel></rss>''"

definition feed3 :: element where
  "feed3 = rss_doc [leaf ''title'' ''T'', leaf ''link'' ''L'',
     Element ''item'' None [leaf ''title'' ''a''],
     Element ''item'' None [leaf ''title'' ''b''],
     Element ''item'' None [leaf ''title'' ''c'']]"

text \<open>A feed with a blank, an empty and a named category, and an item with a blank one.\<close>

definition blank_category_xml :: string where
  "blank_category_xml = ''<rss><channel><title>T</title><link>L</link><category> </category><category></category><category>x</category><item><category> </category></item></channel></rss>''"

definition blank_category_feed :: element where
  "blank_category_feed = rss_doc [leaf ''title'' ''T'', leaf ''link'' ''L'',
     leaf ''category'' '' '', Element ''category'' None [], leaf ''category'' ''x'',
     Element ''item'' None [leaf ''category'' '' '']]"

text \<open>A feed with an item that has every field and an item that has none.\<close>

definition author_xml :: string where
  "author_xml = ''<rss><channel><title>T</title><link>L</link><item><title>a</title><author>A</author><pubDate>P</pubDate><link>U</link><category>x</category><category>y</category><description>d</description></item><item></item></channel></rss>''"

definition author_feed :: element where
  "author_feed = rss_doc [leaf ''title'' ''T'', leaf ''link'' ''L'',
     Element ''item'' None [leaf ''title'' ''a'', leaf ''author'' ''A'', leaf ''pubDate'' ''P'',
       leaf ''link'' ''U'', leaf ''category'' ''x'', leaf ''category'' ''y'',
       leaf ''description'' ''d''],
     Element ''item'' None []]"

text \<open>Two feeds that differ in one place: the item's \<^verbatim>\<open>pubDate\<close> is present without text
  in the first and absent in the second. The library knows both.\<close>

definition empty_pubdate_xml :: string where
  "empty_pubdate_xml = ''<rss><channel><title>T</title><link>L</link><item><pubDate></pubDate></item></channel></rss>''"

definition empty_pubdate_feed :: element where
  "empty_pubdate_feed = rss_doc [leaf ''title'' ''T'', leaf ''link'' ''L'',
     Element ''item'' None [Element ''pubDate'' None []]]"

definition no_pubdate_xml :: string where
  "no_pubdate_xml = ''<rss><channel><title>T</title><link>L</link><item></item></channel></rss>''"

definition no_pubdate_feed :: element where
  "no_pubdate_feed = rss_doc [leaf ''title'' ''T'', leaf ''link'' ''L'', Element ''item'' None []]"

definition pubdate_library :: xml_parser where
  "pubdate_library = table_parser (ParseError ''syntax error'')
     [(empty_pubdate_xml, empty_pubdate_feed), (no_pubdate_xml, no_pubdate_feed)]"

text \<open>A feed whose item has a \<^verbatim>\<open>title\<close> and a \<^verbatim>\<open>description\<close> without text.\<close>

definition empty_title_xml :: string where
  "empty_title_xml = ''<rss><channel><title>T</title><link>L</link><item><title></title><description></description></item></channel></rss>''"

definition empty_title_item :: element where
  "empty_title_item =
     Element ''item'' None [Element ''title'' None [], Element ''description'' None []]"

definition empty_title_feed :: element where
  "empty_title_feed = rss_doc [leaf ''title'' ''T'', leaf ''link'' ''L'', empty_title_item]"

text \<open>The string that holds nothing but the lone surrogate U+D800, and the message of the
  \<^verbatim>\<open>UnicodeEncodeError\<close> the library raises on it.\<close>

definition lone_surrogate :: string where
  "lone_surrogate = [CHR 0xED, CHR 0xA0, CHR 0x80]"

definition surrogate_message :: string where
  "surrogate_message =
     [CHR 0x27] @ ''utf-8'' @ [CHR 0x27] @ '' codec can'' @ [CHR 0x27]
     @ ''t encode character '' @ [CHR 0x27, CHR 0x5C] @ ''ud800'' @ [CHR 0x27]
     @ '' in position 0: surrogates not allowed''"

section \<open>Auxiliary facts\<close>

text \<open>Both loops only append, so the result of a loop is the starting value followed by
  what each item contributes, in the order of the items.\<close>

lemma item_body_append: "item_body item out = out @ item_body item []"
  by (simp add: item_body_def Let_def)

lemma item_loop_concat:
  "item_loop items out = out @ concat (map (\<lambda>item. item_body item []) items)"
proof (induction items arbitrary: out)
  case Nil
  show ?case by simp
next
  case (Cons item items)
  have "item_loop (item # items) out = item_loop items (item_body item out)" by simp
  also have "\<dots> = item_body item out @ concat (map (\<lambda>item. item_body item []) items)"
    by (rule Cons.IH)
  also have "item_body item out = out @ item_body item []" by (rule item_body_append)
  finally show ?case by simp
qed

lemma items_append_literal:
  "items_append [(''title'', a), (''link'', b), (''description'', c), (''items'', JList vs)] v
     = [(''title'', a), (''link'', b), (''description'', c), (''items'', JList (vs @ [v]))]"
  by (simp add: items_append_def)

lemma json_loop_map:
  "json_loop items [(''title'', a), (''link'', b), (''description'', c), (''items'', JList vs)]
     = [(''title'', a), (''link'', b), (''description'', c),
        (''items'', JList (vs @ map (\<lambda>item. JDict (item_dict item)) items))]"
  by (induction items arbitrary: vs) (simp_all add: items_append_literal)

lemma append_field_append: "append_field label x out = out @ append_field label x []"
  by (simp add: append_field_def split: option.splits)

lemma channel_lines_explicit:
  "channel_lines channel title link cats =
     [''Feed: '' @ fmt title, ''Link: '' @ fmt link]
     @ (if cats \<noteq> [] then [''Categories: '' @ join '', '' cats] else [])
     @ append_field ''Last Build Date: '' (find_elem ''lastBuildDate'' channel) []
     @ append_field ''Publish Date: '' (find_elem ''pubDate'' channel) []
     @ append_field ''Language: '' (find_elem ''language'' channel) []
     @ append_field ''Editor: '' (find_elem ''managingEditor'' channel) []
     @ append_field ''Description: '' (find_elem ''description'' channel) []"
proof -
  define o1 where "o1 = [''Feed: '' @ fmt title, ''Link: '' @ fmt link]
     @ (if cats \<noteq> [] then [''Categories: '' @ join '', '' cats] else [])"
  define o2 where "o2 = append_field ''Last Build Date: '' (find_elem ''lastBuildDate'' channel) o1"
  define o3 where "o3 = append_field ''Publish Date: '' (find_elem ''pubDate'' channel) o2"
  define o4 where "o4 = append_field ''Language: '' (find_elem ''language'' channel) o3"
  define o5 where "o5 = append_field ''Editor: '' (find_elem ''managingEditor'' channel) o4"
  have "channel_lines channel title link cats =
          append_field ''Description: '' (find_elem ''description'' channel) o5"
    unfolding channel_lines_def Let_def o5_def o4_def o3_def o2_def o1_def
    by (cases "cats = []") simp_all
  also have "\<dots> = o5 @ append_field ''Description: '' (find_elem ''description'' channel) []"
    by (rule append_field_append)
  also have "o5 = o4 @ append_field ''Editor: '' (find_elem ''managingEditor'' channel) []"
    unfolding o5_def by (rule append_field_append)
  also have "o4 = o3 @ append_field ''Language: '' (find_elem ''language'' channel) []"
    unfolding o4_def by (rule append_field_append)
  also have "o3 = o2 @ append_field ''Publish Date: '' (find_elem ''pubDate'' channel) []"
    unfolding o3_def by (rule append_field_append)
  also have "o2 = o1 @ append_field ''Last Build Date: '' (find_elem ''lastBuildDate'' channel) []"
    unfolding o2_def by (rule append_field_append)
  finally show ?thesis unfolding o1_def by simp
qed

text \<open>What \<^verbatim>\<open>rss_parser\<close> returns for a document that parses and whose channel has a
  \<^verbatim>\<open>title\<close> and a \<^verbatim>\<open>link\<close> child.\<close>

lemma rss_parser_feed:
  assumes "fromstring xml = Inr root"
    and "find_elem ''channel'' root = Some channel"
    and "find_elem ''title'' channel = Some t"
    and "find_elem ''link'' channel = Some l"
  shows "rss_parser fromstring xml limit json =
    Inr (if json
         then [dumps (JDict [(''title'', jv (etext t)), (''link'', jv (etext l)),
                 (''description'', jv (text_or_empty ''description'' channel)),
                 (''items'', JList (map (\<lambda>item. JDict (item_dict item))
                                (apply_limit limit (findall ''item'' channel))))])]
         else channel_lines channel (etext t) (etext l) (cat_texts (findall ''category'' channel))
              @ concat (map (\<lambda>item. item_body item [])
                         (apply_limit limit (findall ''item'' channel))))"
  using assms
  by (simp add: rss_parser_def rss_tree_def Let_def json_loop_map item_loop_concat)

lemma rss_tree_not_wrapped: "rss_tree root limit json \<noteq> Inl (UnhandledException msg)"
  by (simp add: rss_tree_def Let_def split: option.splits)

text \<open>The slice as a prefix.\<close>

lemma slice_to_take:
  "slice_to k xs = take (nat (if k < 0 then int (length xs) + k else k)) xs"
  by (auto simp add: slice_to_def Let_def max_def min_def add.commute)

text \<open>The categories kept by the comprehension, and the block of an item.\<close>

lemma cat_texts_filter: "cat_texts cs = map the (filter truthy (map etext cs))"
proof (induction cs)
  case Nil
  show ?case by simp
next
  case (Cons c cs)
  then show ?case by (cases "etext c") simp_all
qed

lemma cat_texts_spec: "cat_texts (findall ''category'' e) = spec_categories e"
  by (simp add: cat_texts_filter spec_categories_def)

lemma cat_texts_nonempty: "s \<in> set (cat_texts cs) \<Longrightarrow> s \<noteq> []"
proof (induction cs)
  case Nil
  then show ?case by simp
next
  case (Cons c cs)
  then show ?case by (cases "etext c") (auto split: if_splits)
qed

lemma join_eq_Nil: "(\<And>s. s \<in> set xs \<Longrightarrow> s \<noteq> []) \<Longrightarrow> (join sep xs = []) = (xs = [])"
proof (cases xs)
  case Nil
  then show ?thesis by simp
next
  case (Cons x ys)
  assume ne: "\<And>s. s \<in> set xs \<Longrightarrow> s \<noteq> []"
  with Cons have "x \<noteq> []" by simp
  with Cons show ?thesis by (cases ys) simp_all
qed

lemma join_cat_texts_Nil: "(join sep (cat_texts cs) = []) = (cat_texts cs = [])"
  by (rule join_eq_Nil) (rule cat_texts_nonempty)

lemma truthy_fmt: "truthy v \<Longrightarrow> fmt v = the v"
  by (cases v) simp_all

lemma item_body_explicit:
  "item_body item [] =
     [''Title: '' @ fmt (text_or_empty ''title'' item)]
     @ spec_optional_line ''Author: '' (text_or_empty ''author'' item)
     @ spec_optional_line ''Published: '' (text_or_empty ''pubDate'' item)
     @ spec_optional_line ''Link: '' (text_or_empty ''link'' item)
     @ spec_categories_line item
     @ ['''', ''Description: '' @ fmt (text_or_empty ''description'' item), '''']"
  by (simp add: item_body_def spec_optional_line_def
      spec_categories_line_def Let_def join_cat_texts_Nil truthy_fmt
      cat_texts_spec [symmetric])

text \<open>Where the code and the specification's block of an item agree: on every item whose
  \<^verbatim>\<open>title\<close> and \<^verbatim>\<open>description\<close>, when present, have text.\<close>

lemma spec_field_text:
  "spec_field name item = (case text_or_empty name item of None \<Rightarrow> [] | Some s \<Rightarrow> s)"
  by (simp add: spec_field_def text_or_empty_def split: option.splits)

lemma spec_optional_line_field:
  "spec_optional_line label (text_or_empty name item)
     = spec_nonempty_line label (spec_field name item)"
  by (cases "text_or_empty name item")
     (simp_all add: spec_optional_line_def spec_nonempty_line_def spec_field_text)

lemma fmt_field:
  "text_or_empty name item \<noteq> None \<Longrightarrow> fmt (text_or_empty name item) = spec_field name item"
  by (cases "text_or_empty name item") (simp_all add: spec_field_text)

lemma item_body_spec:
  assumes "text_or_empty ''title'' item \<noteq> None"
    and "text_or_empty ''description'' item \<noteq> None"
  shows "item_body item [] = spec_item_block item"
  using assms
  by (simp add: item_body_explicit spec_item_block_def spec_optional_line_field fmt_field)

lemma text_item_blocks_with_text:
  assumes "fromstring xml = Inr root"
    and "find_elem ''channel'' root = Some channel"
    and "find_elem ''title'' channel = Some t"
    and "find_elem ''link'' channel = Some l"
    and "\<And>item. item \<in> set (apply_limit limit (findall ''item'' channel))
           \<Longrightarrow> text_or_empty ''title'' item \<noteq> None
               \<and> text_or_empty ''description'' item \<noteq> None"
  shows "rss_parser fromstring xml limit False =
    Inr (channel_lines channel (etext t) (etext l) (cat_texts (findall ''category'' channel))
         @ concat (map spec_item_block (apply_limit limit (findall ''item'' channel))))"
proof -
  have m: "map (\<lambda>item. item_body item []) (apply_limit limit (findall ''item'' channel))
          = map spec_item_block (apply_limit limit (findall ''item'' channel))"
    using assms(5) by (simp add: item_body_spec)
  have "rss_parser fromstring xml limit False =
    Inr (channel_lines channel (etext t) (etext l) (cat_texts (findall ''category'' channel))
         @ concat (map (\<lambda>item. item_body item [])
                    (apply_limit limit (findall ''item'' channel))))"
    using rss_parser_feed [of fromstring xml root channel t l limit False, OF assms(1-4)]
    by simp
  then show ?thesis by (simp only: m)
qed

lemma newline_indent_0: "newline_indent 0 = [CHR 0x0A]"
  by (simp add: newline_indent_def)

lemma newline_indent_1: "newline_indent (Suc 0) = [CHR 0x0A] @ ''  ''"
  by (simp add: newline_indent_def eval_nat_numeral)

lemma newline_indent_2: "newline_indent (Suc (Suc 0)) = [CHR 0x0A] @ ''    ''"
  by (simp add: newline_indent_def eval_nat_numeral)

lemma newline_indent_3: "newline_indent (Suc (Suc (Suc 0))) = [CHR 0x0A] @ ''      ''"
  by (simp add: newline_indent_def eval_nat_numeral)

lemma iterencode_jv: "iterencode level (jv v) = spec_json_value v"
  by (cases v) (simp_all add: spec_json_value_def)

lemma encode_key: "encode_basestring ''title'' = quoted ''title''"
  "encode_basestring ''pubDate'' = quoted ''pubDate''"
  "encode_basestring ''link'' = quoted ''link''"
  "encode_basestring ''description'' = quoted ''description''"
  "encode_basestring ''items'' = quoted ''items''"
  by (simp_all add: encode_basestring_def quoted_def escape_char_def)

lemma iterencode_item:
  "iterencode (Suc (Suc 0)) (JDict (item_dict item)) = spec_json_item item"
  by (simp add: item_dict_def spec_json_item_def iterencode_jv encode_key
      newline_indent_2 newline_indent_3)

lemma dumps_document:
  "dumps (JDict [(''title'', jv a), (''link'', jv b), (''description'', jv c),
                 (''items'', JList (map (\<lambda>item. JDict (item_dict item)) items))])
     = spec_json_document a b c items"
proof -
  have m: "map (iterencode (Suc (Suc 0))) (map (\<lambda>item. JDict (item_dict item)) items)
             = map spec_json_item items"
    by (simp add: iterencode_item del: iterencode.simps)
  have l: "iterencode (Suc 0) (JList (map (\<lambda>item. JDict (item_dict item)) items))
      = (if items = [] then ''[]''
         else ''['' @ [CHR 0x0A] @ ''    ''
             @ join ('','' @ [CHR 0x0A] @ ''    '') (map spec_json_item items)
             @ [CHR 0x0A] @ ''  ]'')"
    unfolding iterencode.simps(3) m
    by (simp add: newline_indent_1 newline_indent_2)
  show ?thesis
    unfolding dumps_def spec_json_document_def
    unfolding iterencode.simps(4)
    by (simp add: l iterencode_jv encode_key newline_indent_1 newline_indent_0
        del: iterencode.simps)
qed

lemma escape_char_high:
  assumes "128 \<le> (of_char c :: nat)"
  shows "escape_char c = [c]"
proof -
  have n1: "c \<noteq> CHR 0x22" using assms by (intro notI) simp
  have n2: "c \<noteq> CHR 0x5C" using assms by (intro notI) simp
  have n3: "c \<noteq> CHR 0x0A" using assms by (intro notI) simp
  have n4: "c \<noteq> CHR 0x0D" using assms by (intro notI) simp
  have n5: "c \<noteq> CHR 0x09" using assms by (intro notI) simp
  have n6: "c \<noteq> CHR 0x08" using assms by (intro notI) simp
  have n7: "c \<noteq> CHR 0x0C" using assms by (intro notI) simp
  have n8: "\<not> (of_char c :: nat) < 32" using assms by simp
  show ?thesis unfolding escape_char_def using n1 n2 n3 n4 n5 n6 n7 n8
    by (simp only: if_False)
qed

lemma encode_basestring_high:
  assumes "\<And>c. c \<in> set s \<Longrightarrow> 128 \<le> (of_char c :: nat)"
  shows "encode_basestring s = quoted s"
proof -
  have "concat (map escape_char s) = s" using assms
  proof (induction s)
    case Nil
    show ?case by simp
  next
    case (Cons c s)
    then show ?case by (simp add: escape_char_high)
  qed
  then show ?thesis by (simp add: encode_basestring_def quoted_def)
qed

lemma item_body_author:
  assumes "text_or_empty ''author'' item = Some a" and "a \<noteq> []"
  shows "(''Author: '' @ a) \<in> set (item_body item [])"
  using assms by (simp add: item_body_def Let_def)

text \<open>The example library on its two documents.\<close>

lemma pubdate_library_empty: "pubdate_library empty_pubdate_xml = Inr empty_pubdate_feed"
  by (simp add: pubdate_library_def table_parser_def)

lemma pubdate_library_no: "pubdate_library no_pubdate_xml = Inr no_pubdate_feed"
  by (simp add: pubdate_library_def table_parser_def empty_pubdate_xml_def no_pubdate_xml_def)

section \<open>Malformed XML\<close>

text \<open>
  C1, as the specification states it, fails for an input that is not well-formed XML and
  on which the library raises something other than \<^verbatim>\<open>ET.ParseError\<close>: the handler names
  \<^verbatim>\<open>ET.ParseError\<close> only. For the string that holds a lone surrogate the library raises
  \<^verbatim>\<open>UnicodeEncodeError\<close>, and \<^verbatim>\<open>rss_parser\<close> lets it pass unwrapped.
\<close>

theorem lone_surrogate_counterexample:
  "rss_parser (table_parser (UnicodeEncodeError surrogate_message) []) lone_surrogate None False
     = Inl (Uncaught (UnicodeEncodeError surrogate_message))"
  by (simp add: rss_parser_def table_parser_def)

text \<open>
  C1, amended. Whatever the limit and the JSON flag, \<^verbatim>\<open>rss_parser\<close> fails with the
  application's error kind (the class \<^verbatim>\<open>UnhandledException\<close>) carrying the message of the
  XML library exactly when the library raises \<^verbatim>\<open>ET.ParseError\<close> on the document: such a
  document gives that error, and that error has no other cause. A document on which the
  library raises \<^verbatim>\<open>UnicodeEncodeError\<close> gives that exception, unwrapped.
\<close>

theorem parse_error_only_wrapped:
  "((rss_parser fromstring xml limit json = Inl (UnhandledException msg))
      = (fromstring xml = Inl (ParseError msg)))
   \<and> (fromstring xml = Inl (UnicodeEncodeError msg)
        \<longrightarrow> rss_parser fromstring xml limit json = Inl (Uncaught (UnicodeEncodeError msg)))"
proof (cases "fromstring xml")
  case (Inl e)
  then show ?thesis by (cases e) (simp_all add: rss_parser_def)
next
  case (Inr root)
  then show ?thesis by (simp add: rss_parser_def rss_tree_not_wrapped)
qed

text \<open>The unclosed document \<^verbatim>\<open><rss><channel>\<close>, rejected with the message of expat, and the
  lone surrogate.\<close>

theorem parse_error_only_wrapped_witness:
  "table_parser (ParseError ''no element found: line 1, column 14'') [] ''<rss><channel>''
     = Inl (ParseError ''no element found: line 1, column 14'')
   \<and> rss_parser (table_parser (ParseError ''no element found: line 1, column 14'') [])
       ''<rss><channel>'' None False
     = Inl (UnhandledException ''no element found: line 1, column 14'')
   \<and> table_parser (UnicodeEncodeError surrogate_message) [] lone_surrogate
     = Inl (UnicodeEncodeError surrogate_message)
   \<and> rss_parser (table_parser (UnicodeEncodeError surrogate_message) []) lone_surrogate
       (Some 2) True
     = Inl (Uncaught (UnicodeEncodeError surrogate_message))"
proof -
  let ?m = "''no element found: line 1, column 14''"
  have h: "table_parser (ParseError ?m) [] ''<rss><channel>'' = Inl (ParseError ?m)"
    by (simp add: table_parser_def)
  have g: "table_parser (UnicodeEncodeError surrogate_message) [] lone_surrogate
             = Inl (UnicodeEncodeError surrogate_message)"
    by (simp add: table_parser_def)
  from h parse_error_only_wrapped [of "table_parser (ParseError ?m) []"
      "''<rss><channel>''" None False ?m]
  have a: "rss_parser (table_parser (ParseError ?m) []) ''<rss><channel>'' None False
             = Inl (UnhandledException ?m)"
    by blast
  from g parse_error_only_wrapped [of "table_parser (UnicodeEncodeError surrogate_message) []"
      lone_surrogate "Some 2" True surrogate_message]
  have b: "rss_parser (table_parser (UnicodeEncodeError surrogate_message) []) lone_surrogate
             (Some 2) True = Inl (Uncaught (UnicodeEncodeError surrogate_message))"
    by blast
  from h a g b show ?thesis by (intro conjI)
qed

section \<open>Missing channel, title or link\<close>

text \<open>
  C9. When the document parses but its root has no \<^verbatim>\<open>channel\<close> child, or the channel has
  no \<^verbatim>\<open>title\<close> or no \<^verbatim>\<open>link\<close> child, \<^verbatim>\<open>rss_parser\<close> ends in an \<^verbatim>\<open>AttributeError\<close>
  (for \<^verbatim>\<open>.find\<close> on a missing channel, for \<^verbatim>\<open>.text\<close> otherwise), which is not the wrapped
  application error.
\<close>

theorem attribute_error_escapes:
  assumes "fromstring xml = Inr root"
    and "find_elem ''channel'' root = None
         \<or> (\<exists>channel. find_elem ''channel'' root = Some channel
               \<and> (find_elem ''title'' channel = None \<or> find_elem ''link'' channel = None))"
  shows "rss_parser fromstring xml limit json =
           Inl (AttributeError (if find_elem ''channel'' root = None then ''find'' else ''text''))
         \<and> (\<forall>msg. rss_parser fromstring xml limit json \<noteq> Inl (UnhandledException msg))"
  using assms
  by (auto simp add: rss_parser_def rss_tree_def split: option.splits)

text \<open>The document \<^verbatim>\<open><rss></rss>\<close>, which has no channel.\<close>

theorem attribute_error_escapes_witness:
  "table_parser (ParseError []) [(''<rss></rss>'', Element ''rss'' None [])] ''<rss></rss>''
     = Inr (Element ''rss'' None [])
   \<and> find_elem ''channel'' (Element ''rss'' None []) = None
   \<and> rss_parser (table_parser (ParseError []) [(''<rss></rss>'', Element ''rss'' None [])]) ''<rss></rss>''
        (Some 3) True = Inl (AttributeError ''find'')"
proof -
  have h1: "table_parser (ParseError []) [(''<rss></rss>'', Element ''rss'' None [])] ''<rss></rss>''
     = Inr (Element ''rss'' None [])"
    by (simp add: table_parser_def)
  have h2: "find_elem ''channel'' (Element ''rss'' None []) = None"
    by (simp add: find_elem_def)
  from h2 have h3: "find_elem ''channel'' (Element ''rss'' None []) = None
         \<or> (\<exists>channel. find_elem ''channel'' (Element ''rss'' None []) = Some channel
               \<and> (find_elem ''title'' channel = None \<or> find_elem ''link'' channel = None))"
    by (rule disjI1)
  from attribute_error_escapes [of "table_parser (ParseError []) [(''<rss></rss>'', Element ''rss'' None [])]"
      "''<rss></rss>''" "Element ''rss'' None []" "Some 3" True, OF h1 h3] h1 h2
  show ?thesis by simp
qed

section \<open>The minimal feed\<close>

text \<open>
  C7. For the document
  \<^verbatim>\<open><rss><channel><title>T</title><link>L</link><description>D</description></channel></rss>\<close>,
  parsed by the library into the tree of its five elements, \<^verbatim>\<open>rss_parser\<close> without limit
  in text mode returns exactly the three lines \<^verbatim>\<open>Feed: T\<close>, \<^verbatim>\<open>Link: L\<close> and
  \<^verbatim>\<open>Description: D\<close>, with no item block after them.
\<close>

theorem minimal_feed_lines:
  assumes "fromstring
      ''<rss><channel><title>T</title><link>L</link><description>D</description></channel></rss>''
    = Inr (Element ''rss'' None [Element ''channel'' None
            [Element ''title'' (Some ''T'') [], Element ''link'' (Some ''L'') [],
             Element ''description'' (Some ''D'') []]])"
  shows "rss_parser fromstring
      ''<rss><channel><title>T</title><link>L</link><description>D</description></channel></rss>''
      None False
    = Inr [''Feed: T'', ''Link: L'', ''Description: D'']"
  using assms
  by (simp add: rss_parser_def rss_tree_def find_elem_def findall_def apply_limit_def
      channel_lines_def append_field_def Let_def)

text \<open>The same with a stand-in library that knows this one document.\<close>

theorem minimal_feed_lines_witness:
  "table_parser (ParseError ''syntax error'')
     [(''<rss><channel><title>T</title><link>L</link><description>D</description></channel></rss>'',
       Element ''rss'' None [Element ''channel'' None
            [Element ''title'' (Some ''T'') [], Element ''link'' (Some ''L'') [],
             Element ''description'' (Some ''D'') []]])]
     ''<rss><channel><title>T</title><link>L</link><description>D</description></channel></rss>''
    = Inr (Element ''rss'' None [Element ''channel'' None
            [Element ''title'' (Some ''T'') [], Element ''link'' (Some ''L'') [],
             Element ''description'' (Some ''D'') []]])
   \<and> rss_parser (table_parser (ParseError ''syntax error'')
     [(''<rss><channel><title>T</title><link>L</link><description>D</description></channel></rss>'',
       Element ''rss'' None [Element ''channel'' None
            [Element ''title'' (Some ''T'') [], Element ''link'' (Some ''L'') [],
             Element ''description'' (Some ''D'') []]])])
      ''<rss><channel><title>T</title><link>L</link><description>D</description></channel></rss>''
      None False
    = Inr [''Feed: T'', ''Link: L'', ''Description: D'']"
proof -
  let ?xml = "''<rss><channel><title>T</title><link>L</link><description>D</description></channel></rss>''"
  let ?tree = "Element ''rss'' None [Element ''channel'' None
            [Element ''title'' (Some ''T'') [], Element ''link'' (Some ''L'') [],
             Element ''description'' (Some ''D'') []]]"
  have h: "table_parser (ParseError ''syntax error'') [(?xml, ?tree)] ?xml = Inr ?tree"
    by (simp add: table_parser_def)
  from h minimal_feed_lines [of "table_parser (ParseError ''syntax error'') [(?xml, ?tree)]", OF h]
  show ?thesis by (rule conjI)
qed

section \<open>Channel title or link without text\<close>

text \<open>
  C10. When the channel's \<^verbatim>\<open>title\<close> element is present and has no text, the first line of
  the text output is \<^verbatim>\<open>Feed: None\<close>; when its \<^verbatim>\<open>link\<close> element is present and has no
  text, the second line is \<^verbatim>\<open>Link: None\<close>. The line is neither left out nor emitted with
  an empty value.
\<close>

theorem channel_none_lines:
  assumes "fromstring xml = Inr root"
    and "find_elem ''channel'' root = Some channel"
    and "find_elem ''title'' channel = Some t"
    and "find_elem ''link'' channel = Some l"
  shows "(etext t = None \<longrightarrow>
            (\<exists>rest. rss_parser fromstring xml limit False
               = Inr (''Feed: None'' # (''Link: '' @ fmt (etext l)) # rest)))
       \<and> (etext l = None \<longrightarrow>
            (\<exists>rest. rss_parser fromstring xml limit False
               = Inr ((''Feed: '' @ fmt (etext t)) # ''Link: None'' # rest)))"
proof -
  have "rss_parser fromstring xml limit False =
      Inr (channel_lines channel (etext t) (etext l) (cat_texts (findall ''category'' channel))
              @ concat (map (\<lambda>item. item_body item [])
                         (apply_limit limit (findall ''item'' channel))))"
    using rss_parser_feed [of fromstring xml root channel t l limit False, OF assms] by simp
  then show ?thesis
    by (auto simp add: channel_lines_explicit)
qed

text \<open>The document \<^verbatim>\<open><rss><channel><title></title><link></link></channel></rss>\<close>.\<close>

theorem channel_none_lines_witness:
  "table_parser (ParseError ''syntax error'')
     [(''<rss><channel><title></title><link></link></channel></rss>'',
       rss_doc [Element ''title'' None [], Element ''link'' None []])]
     ''<rss><channel><title></title><link></link></channel></rss>''
    = Inr (rss_doc [Element ''title'' None [], Element ''link'' None []])
   \<and> find_elem ''channel'' (rss_doc [Element ''title'' None [], Element ''link'' None []])
       = Some (Element ''channel'' None [Element ''title'' None [], Element ''link'' None []])
   \<and> find_elem ''title'' (Element ''channel'' None [Element ''title'' None [], Element ''link'' None []])
       = Some (Element ''title'' None [])
   \<and> find_elem ''link'' (Element ''channel'' None [Element ''title'' None [], Element ''link'' None []])
       = Some (Element ''link'' None [])
   \<and> etext (Element ''title'' None []) = None
   \<and> etext (Element ''link'' None []) = None
   \<and> (\<exists>rest. rss_parser (table_parser (ParseError ''syntax error'')
          [(''<rss><channel><title></title><link></link></channel></rss>'',
            rss_doc [Element ''title'' None [], Element ''link'' None []])])
          ''<rss><channel><title></title><link></link></channel></rss>'' None False
        = Inr (''Feed: None'' # ''Link: None'' # rest))"
proof -
  let ?xml = "''<rss><channel><title></title><link></link></channel></rss>''"
  let ?ch = "Element ''channel'' None [Element ''title'' None [], Element ''link'' None []]"
  let ?tree = "rss_doc [Element ''title'' None [], Element ''link'' None []]"
  let ?p = "table_parser (ParseError ''syntax error'') [(?xml, ?tree)]"
  have h1: "?p ?xml = Inr ?tree" by (simp add: table_parser_def)
  have h2: "find_elem ''channel'' ?tree = Some ?ch" by (simp add: find_elem_def rss_doc_def)
  have h3: "find_elem ''title'' ?ch = Some (Element ''title'' None [])"
    by (simp add: find_elem_def)
  have h4: "find_elem ''link'' ?ch = Some (Element ''link'' None [])"
    by (simp add: find_elem_def)
  from channel_none_lines [of ?p ?xml ?tree ?ch "Element ''title'' None []"
      "Element ''link'' None []" None, OF h1 h2 h3 h4]
  have "\<exists>rest. rss_parser ?p ?xml None False = Inr (''Feed: None'' # ''Link: None'' # rest)"
    by simp
  with h1 h2 h3 h4 show ?thesis by simp
qed

section \<open>The limit\<close>

text \<open>
  C2, as the specification states it, fails for a negative limit: the slice
  \<^verbatim>\<open>items[:limit]\<close> then drops items from the end instead of returning none. With three
  items and limit \<open>-1\<close> the first two items are printed.
\<close>

theorem limit_negative_counterexample:
  "rss_parser (table_parser (ParseError ''syntax error'') [(feed3_xml, feed3)]) feed3_xml (Some (- 1)) False
     = Inr [''Feed: T'', ''Link: L'',
            ''Title: a'', '''', ''Description: '', '''',
            ''Title: b'', '''', ''Description: '', '''']"
  by (simp add: rss_parser_def table_parser_def rss_tree_def feed3_def rss_doc_def leaf_def
      find_elem_def findall_def apply_limit_def slice_to_def channel_lines_def append_field_def
      item_body_def text_or_empty_def Let_def)

text \<open>
  C2, amended. For a document that parses and whose channel has a title and a link, in
  text mode and in JSON mode alike: without a limit all items are output; with a limit at
  least the number of items, all of them; with a limit strictly between zero and the
  number of items, exactly the first \<open>limit\<close> items in document order; with limit zero,
  none; with a negative limit \<open>-k\<close>, the items except the last \<open>k\<close> (none when there
  are at most \<open>k\<close>). In text mode the output is the channel's lines followed by the
  lines of each kept item, in JSON mode the list under \<^verbatim>\<open>items\<close> has one object per
  kept item.
\<close>

theorem limit_prefix:
  fixes k :: int and json :: bool
  assumes "fromstring xml = Inr root"
    and "find_elem ''channel'' root = Some channel"
    and "find_elem ''title'' channel = Some t"
    and "find_elem ''link'' channel = Some l"
  defines "items \<equiv> findall ''item'' channel"
  defines "out \<equiv> \<lambda>kept.
     if json
     then [dumps (JDict [(''title'', jv (etext t)), (''link'', jv (etext l)),
             (''description'', jv (text_or_empty ''description'' channel)),
             (''items'', JList (map (\<lambda>item. JDict (item_dict item)) kept))])]
     else channel_lines channel (etext t) (etext l) (cat_texts (findall ''category'' channel))
          @ concat (map (\<lambda>item. item_body item []) kept)"
  shows "rss_parser fromstring xml None json = Inr (out items)
       \<and> (int (length items) \<le> k \<longrightarrow> rss_parser fromstring xml (Some k) json = Inr (out items))
       \<and> (0 < k \<and> k < int (length items) \<longrightarrow>
            rss_parser fromstring xml (Some k) json = Inr (out (take (nat k) items)))
       \<and> rss_parser fromstring xml (Some 0) json = Inr (out [])
       \<and> (k < 0 \<longrightarrow>
            rss_parser fromstring xml (Some k) json
              = Inr (out (take (nat (int (length items) + k)) items)))"
proof -
  have r: "rss_parser fromstring xml limit json = Inr (out (apply_limit limit items))" for limit
    using rss_parser_feed [of fromstring xml root channel t l limit json, OF assms(1-4)]
    by (simp add: out_def items_def)
  have a: "apply_limit None items = items" by (simp add: apply_limit_def)
  have b: "apply_limit (Some k) items = items" if "int (length items) \<le> k"
    using that by (simp add: apply_limit_def slice_to_take)
  have c: "apply_limit (Some k) items = take (nat k) items" if "0 < k"
    using that by (simp add: apply_limit_def slice_to_take)
  have d: "apply_limit (Some 0) items = []" by (simp add: apply_limit_def slice_to_take)
  have e: "apply_limit (Some k) items = take (nat (int (length items) + k)) items" if "k < 0"
    using that by (simp add: apply_limit_def slice_to_take)
  show ?thesis using a b c d e by (simp add: r)
qed

text \<open>Three items with limits 2, 0 and \<open>-2\<close>.\<close>

theorem limit_prefix_witness:
  "table_parser (ParseError ''syntax error'') [(feed3_xml, feed3)] feed3_xml = Inr feed3
   \<and> find_elem ''channel'' feed3 = Some (Element ''channel'' None
         [leaf ''title'' ''T'', leaf ''link'' ''L'',
          Element ''item'' None [leaf ''title'' ''a''],
          Element ''item'' None [leaf ''title'' ''b''],
          Element ''item'' None [leaf ''title'' ''c'']])
   \<and> rss_parser (table_parser (ParseError ''syntax error'') [(feed3_xml, feed3)]) feed3_xml (Some 2) False
       = Inr [''Feed: T'', ''Link: L'',
              ''Title: a'', '''', ''Description: '', '''',
              ''Title: b'', '''', ''Description: '', '''']
   \<and> rss_parser (table_parser (ParseError ''syntax error'') [(feed3_xml, feed3)]) feed3_xml (Some 0) False
       = Inr [''Feed: T'', ''Link: L'']
   \<and> rss_parser (table_parser (ParseError ''syntax error'') [(feed3_xml, feed3)]) feed3_xml (Some (- 2)) False
       = Inr [''Feed: T'', ''Link: L'', ''Title: a'', '''', ''Description: '', '''']"
proof -
  let ?p = "table_parser (ParseError ''syntax error'') [(feed3_xml, feed3)]"
  let ?ch = "Element ''channel'' None
         [leaf ''title'' ''T'', leaf ''link'' ''L'',
          Element ''item'' None [leaf ''title'' ''a''],
          Element ''item'' None [leaf ''title'' ''b''],
          Element ''item'' None [leaf ''title'' ''c'']]"
  have h1: "?p feed3_xml = Inr feed3" by (simp add: table_parser_def)
  have h2: "find_elem ''channel'' feed3 = Some ?ch"
    by (simp add: find_elem_def feed3_def rss_doc_def)
  have h3: "find_elem ''title'' ?ch = Some (leaf ''title'' ''T'')"
    by (simp add: find_elem_def leaf_def)
  have h4: "find_elem ''link'' ?ch = Some (leaf ''link'' ''L'')"
    by (simp add: find_elem_def leaf_def)
  have ev: "findall ''item'' ?ch = [Element ''item'' None [leaf ''title'' ''a''],
          Element ''item'' None [leaf ''title'' ''b''],
          Element ''item'' None [leaf ''title'' ''c'']]"
    by (simp add: findall_def leaf_def)
  have ch: "channel_lines ?ch (etext (leaf ''title'' ''T'')) (etext (leaf ''link'' ''L''))
              (cat_texts (findall ''category'' ?ch)) = [''Feed: T'', ''Link: L'']"
    by (simp add: channel_lines_def append_field_def find_elem_def findall_def leaf_def Let_def)
  have ib: "item_body (Element ''item'' None [leaf ''title'' s]) []
              = [''Title: '' @ s, '''', ''Description: '', '''']" for s
    by (simp add: item_body_def text_or_empty_def find_elem_def findall_def leaf_def Let_def)
  have two: "take (nat 2) [x, y, z] = [x, y]" for x y z :: element
    by (simp add: numeral_2_eq_2)
  have one: "take (nat (3 + - 2)) [x, y, z] = [x]" for x y z :: element
    by simp
  from limit_prefix [of ?p feed3_xml feed3 ?ch "leaf ''title'' ''T''" "leaf ''link'' ''L''"
      False 2, OF h1 h2 h3 h4]
  have r2: "rss_parser ?p feed3_xml (Some 2) False
       = Inr [''Feed: T'', ''Link: L'',
              ''Title: a'', '''', ''Description: '', '''',
              ''Title: b'', '''', ''Description: '', '''']"
    and r0: "rss_parser ?p feed3_xml (Some 0) False = Inr [''Feed: T'', ''Link: L'']"
    by (simp_all add: ev ch ib two)
  from limit_prefix [of ?p feed3_xml feed3 ?ch "leaf ''title'' ''T''" "leaf ''link'' ''L''"
      False "- 2", OF h1 h2 h3 h4]
  have rm: "rss_parser ?p feed3_xml (Some (- 2)) False
       = Inr [''Feed: T'', ''Link: L'', ''Title: a'', '''', ''Description: '', '''']"
    by (simp add: ev ch ib one)
  from h1 h2 r2 r0 rm show ?thesis by simp
qed

section \<open>Item blocks in text mode\<close>

text \<open>
  C6. The specification requires, for each kept item, the line \<^verbatim>\<open>Title: {title}\<close> and the
  line \<^verbatim>\<open>Description: {description}\<close> always, with an empty value when the field is empty.
  The code does not do so for an element that is present without text: the conditional
  \<^verbatim>\<open>item.find('title').text if item.find('title') is not None else ''\<close> passes the
  \<^verbatim>\<open>None\<close> of the empty element on and the f-string prints it. For
  \<^verbatim>\<open><item><title></title><description></description></item>\<close> the block is
  \<^verbatim>\<open>Title: None\<close>, an empty line, \<^verbatim>\<open>Description: None\<close>, an empty line, where the
  specification's block has \<^verbatim>\<open>Title: \<close> and \<^verbatim>\<open>Description: \<close>.
\<close>

theorem empty_title_prints_none:
  "rss_parser (table_parser (ParseError ''syntax error'') [(empty_title_xml, empty_title_feed)])
      empty_title_xml None False
     = Inr [''Feed: T'', ''Link: L'', ''Title: None'', '''', ''Description: None'', '''']
   \<and> spec_item_block empty_title_item = [''Title: '', '''', ''Description: '', '''']"
  by (simp add: rss_parser_def table_parser_def rss_tree_def empty_title_feed_def
      empty_title_item_def rss_doc_def leaf_def find_elem_def findall_def apply_limit_def
      channel_lines_def append_field_def item_body_def text_or_empty_def Let_def
      spec_item_block_def spec_field_def spec_nonempty_line_def spec_categories_line_def
      spec_categories_def)

section \<open>Categories\<close>

text \<open>
  C4, as the specification states it, fails for a category whose text is only white
  space: \<^verbatim>\<open>if cat.text\<close> keeps every non-empty string, and nothing strips the text. The
  blank category of the channel and the blank category of the item are both printed.
\<close>

theorem whitespace_category_counterexample:
  "rss_parser (table_parser (ParseError ''syntax error'') [(blank_category_xml, blank_category_feed)])
      blank_category_xml None False
     = Inr [''Feed: T'', ''Link: L'', ''Categories:  , x'',
            ''Title: '', ''Categories:  '', '''', ''Description: '', '''']"
  by (simp add: rss_parser_def table_parser_def rss_tree_def blank_category_feed_def rss_doc_def
      leaf_def find_elem_def findall_def apply_limit_def channel_lines_def append_field_def
      item_body_def text_or_empty_def Let_def)

text \<open>
  C4, amended. For a document that parses and whose channel has a title and a link, the
  \<^verbatim>\<open>Categories:\<close> line of the channel and of each kept item joins, with a comma and a
  blank, the texts of those \<^verbatim>\<open>category\<close> children whose text is non-empty, in document
  order; categories without text are left out, a text of white space only is kept, and
  the line is absent when no category is kept. The channel's line comes right after the
  \<^verbatim>\<open>Link:\<close> line, an item's line right before the empty line that precedes its
  description.
\<close>

theorem categories_nonempty_only:
  assumes "fromstring xml = Inr root"
    and "find_elem ''channel'' root = Some channel"
    and "find_elem ''title'' channel = Some t"
    and "find_elem ''link'' channel = Some l"
  shows "rss_parser fromstring xml limit False =
    Inr ([''Feed: '' @ fmt (etext t), ''Link: '' @ fmt (etext l)]
         @ spec_categories_line channel
         @ append_field ''Last Build Date: '' (find_elem ''lastBuildDate'' channel) []
         @ append_field ''Publish Date: '' (find_elem ''pubDate'' channel) []
         @ append_field ''Language: '' (find_elem ''language'' channel) []
         @ append_field ''Editor: '' (find_elem ''managingEditor'' channel) []
         @ append_field ''Description: '' (find_elem ''description'' channel) []
         @ concat (map (\<lambda>item.
             [''Title: '' @ fmt (text_or_empty ''title'' item)]
             @ spec_optional_line ''Author: '' (text_or_empty ''author'' item)
             @ spec_optional_line ''Published: '' (text_or_empty ''pubDate'' item)
             @ spec_optional_line ''Link: '' (text_or_empty ''link'' item)
             @ spec_categories_line item
             @ ['''', ''Description: '' @ fmt (text_or_empty ''description'' item), ''''])
           (apply_limit limit (findall ''item'' channel))))"
proof -
  have blk: "item_body item [] =
             [''Title: '' @ fmt (text_or_empty ''title'' item)]
             @ spec_optional_line ''Author: '' (text_or_empty ''author'' item)
             @ spec_optional_line ''Published: '' (text_or_empty ''pubDate'' item)
             @ spec_optional_line ''Link: '' (text_or_empty ''link'' item)
             @ spec_categories_line item
             @ ['''', ''Description: '' @ fmt (text_or_empty ''description'' item), '''']"
    for item
    by (simp add: item_body_explicit)
  have hd: "(if spec_categories channel \<noteq> []
             then [''Categories: '' @ join '', '' (spec_categories channel)] else [])
            = spec_categories_line channel"
    by (simp add: spec_categories_line_def)
  show ?thesis
    using rss_parser_feed [of fromstring xml root channel t l limit False, OF assms]
    by (simp only: blk channel_lines_explicit cat_texts_spec hd if_False append_assoc)
qed

text \<open>The feed of the counterexample with limit 1: the blank categories are kept, the
  category without text is not.\<close>

theorem categories_nonempty_only_witness:
  "table_parser (ParseError ''syntax error'') [(blank_category_xml, blank_category_feed)] blank_category_xml
     = Inr blank_category_feed
   \<and> find_elem ''channel'' blank_category_feed = Some (hd (children blank_category_feed))
   \<and> find_elem ''title'' (hd (children blank_category_feed)) = Some (leaf ''title'' ''T'')
   \<and> find_elem ''link'' (hd (children blank_category_feed)) = Some (leaf ''link'' ''L'')
   \<and> spec_categories (hd (children blank_category_feed)) = ['' '', ''x'']
   \<and> rss_parser (table_parser (ParseError ''syntax error'') [(blank_category_xml, blank_category_feed)])
        blank_category_xml (Some 1) False
       = Inr [''Feed: T'', ''Link: L'', ''Categories:  , x'',
              ''Title: '', ''Categories:  '', '''', ''Description: '', '''']"
proof -
  let ?p = "table_parser (ParseError ''syntax error'') [(blank_category_xml, blank_category_feed)]"
  let ?ch = "hd (children blank_category_feed)"
  have h1: "?p blank_category_xml = Inr blank_category_feed" by (simp add: table_parser_def)
  have h2: "find_elem ''channel'' blank_category_feed = Some ?ch"
    by (simp add: find_elem_def blank_category_feed_def rss_doc_def)
  have h3: "find_elem ''title'' ?ch = Some (leaf ''title'' ''T'')"
    by (simp add: find_elem_def blank_category_feed_def rss_doc_def leaf_def)
  have h4: "find_elem ''link'' ?ch = Some (leaf ''link'' ''L'')"
    by (simp add: find_elem_def blank_category_feed_def rss_doc_def leaf_def)
  have h5: "spec_categories ?ch = ['' '', ''x'']"
    by (simp add: spec_categories_def findall_def blank_category_feed_def rss_doc_def leaf_def)
  from categories_nonempty_only [of ?p blank_category_xml blank_category_feed ?ch
      "leaf ''title'' ''T''" "leaf ''link'' ''L''" "Some 1", OF h1 h2 h3 h4]
  have "rss_parser ?p blank_category_xml (Some 1) False
       = Inr [''Feed: T'', ''Link: L'', ''Categories:  , x'',
              ''Title: '', ''Categories:  '', '''', ''Description: '', '''']"
    by (simp add: blank_category_feed_def rss_doc_def leaf_def findall_def find_elem_def
        apply_limit_def slice_to_def append_field_def spec_optional_line_def
        spec_categories_line_def spec_categories_def text_or_empty_def Let_def)
  with h1 h2 h3 h4 h5 show ?thesis by simp
qed

section \<open>The JSON document\<close>

text \<open>
  C5. In JSON mode, for a document that parses and whose channel has a title and a link,
  \<^verbatim>\<open>rss_parser\<close> returns a list of one string, the serialisation of one object with the
  keys \<^verbatim>\<open>title\<close>, \<^verbatim>\<open>link\<close>, \<^verbatim>\<open>description\<close>, \<^verbatim>\<open>items\<close> in this order, where \<^verbatim>\<open>items\<close>
  holds one object per kept item with the keys \<^verbatim>\<open>title\<close>, \<^verbatim>\<open>pubDate\<close>, \<^verbatim>\<open>link\<close>,
  \<^verbatim>\<open>description\<close> in this order and no other key, so neither the author nor the
  categories of an item. The text is indented by two blanks per level, as the layout of
  \<open>spec_json_document\<close> writes out. A string made of bytes beyond ASCII is emitted as
  it is, between quotes. For a kept item whose author is the non-empty text \<open>a\<close>, the
  text output of the same call contains the line \<^verbatim>\<open>Author: a\<close>.
\<close>

theorem json_document:
  assumes "fromstring xml = Inr root"
    and "find_elem ''channel'' root = Some channel"
    and "find_elem ''title'' channel = Some t"
    and "find_elem ''link'' channel = Some l"
  shows "rss_parser fromstring xml limit True =
      Inr [dumps (JDict
        [(''title'', jv (etext t)),
         (''link'', jv (etext l)),
         (''description'', jv (text_or_empty ''description'' channel)),
         (''items'', JList (map (\<lambda>item. JDict
             [(''title'', jv (text_or_empty ''title'' item)),
              (''pubDate'', jv (text_or_empty ''pubDate'' item)),
              (''link'', jv (text_or_empty ''link'' item)),
              (''description'', jv (text_or_empty ''description'' item))])
            (apply_limit limit (findall ''item'' channel))))])]
    \<and> rss_parser fromstring xml limit True =
      Inr [spec_json_document (etext t) (etext l) (text_or_empty ''description'' channel)
             (apply_limit limit (findall ''item'' channel))]
    \<and> (\<forall>s. (\<forall>c \<in> set s. 128 \<le> (of_char c :: nat)) \<longrightarrow> encode_basestring s = quoted s)
    \<and> (\<forall>item a. item \<in> set (apply_limit limit (findall ''item'' channel))
           \<and> text_or_empty ''author'' item = Some a \<and> a \<noteq> []
         \<longrightarrow> (\<exists>out. rss_parser fromstring xml limit False = Inr out
                  \<and> (''Author: '' @ a) \<in> set out))"
proof -
  let ?kept = "apply_limit limit (findall ''item'' channel)"
  have j: "rss_parser fromstring xml limit True =
      Inr [dumps (JDict [(''title'', jv (etext t)), (''link'', jv (etext l)),
                 (''description'', jv (text_or_empty ''description'' channel)),
                 (''items'', JList (map (\<lambda>item. JDict (item_dict item)) ?kept))])]"
    using rss_parser_feed [of fromstring xml root channel t l limit True, OF assms] by simp
  have x: "rss_parser fromstring xml limit False =
      Inr (channel_lines channel (etext t) (etext l) (cat_texts (findall ''category'' channel))
           @ concat (map (\<lambda>item. item_body item []) ?kept))"
    using rss_parser_feed [of fromstring xml root channel t l limit False, OF assms] by simp
  have c1: "rss_parser fromstring xml limit True =
      Inr [dumps (JDict
        [(''title'', jv (etext t)),
         (''link'', jv (etext l)),
         (''description'', jv (text_or_empty ''description'' channel)),
         (''items'', JList (map (\<lambda>item. JDict
             [(''title'', jv (text_or_empty ''title'' item)),
              (''pubDate'', jv (text_or_empty ''pubDate'' item)),
              (''link'', jv (text_or_empty ''link'' item)),
              (''description'', jv (text_or_empty ''description'' item))]) ?kept))])]"
    using j by (simp add: item_dict_def)
  have c2: "rss_parser fromstring xml limit True =
      Inr [spec_json_document (etext t) (etext l) (text_or_empty ''description'' channel) ?kept]"
    using j by (simp only: dumps_document)
  have c3: "\<forall>s. (\<forall>c \<in> set s. 128 \<le> (of_char c :: nat)) \<longrightarrow> encode_basestring s = quoted s"
    using encode_basestring_high by blast
  have c4: "\<forall>item a. item \<in> set ?kept \<and> text_or_empty ''author'' item = Some a \<and> a \<noteq> []
         \<longrightarrow> (\<exists>out. rss_parser fromstring xml limit False = Inr out
                  \<and> (''Author: '' @ a) \<in> set out)"
  proof (intro allI impI)
    fix item a
    assume h: "item \<in> set ?kept \<and> text_or_empty ''author'' item = Some a \<and> a \<noteq> []"
    then have "(''Author: '' @ a) \<in> set (item_body item [])"
      using item_body_author by blast
    with h have "(''Author: '' @ a) \<in> set (concat (map (\<lambda>item. item_body item []) ?kept))"
      by auto
    then show "\<exists>out. rss_parser fromstring xml limit False = Inr out
                  \<and> (''Author: '' @ a) \<in> set out"
      using x by simp
  qed
  from c1 c2 c3 c4 show ?thesis by (intro conjI)
qed

text \<open>The first item of a feed whose item has the author \<^verbatim>\<open>A\<close>: the JSON text, line by
  line, and the author's line in text mode.\<close>

theorem json_document_witness:
  "table_parser (ParseError ''syntax error'') [(author_xml, author_feed)] author_xml = Inr author_feed
   \<and> find_elem ''channel'' author_feed = Some (hd (children author_feed))
   \<and> find_elem ''title'' (hd (children author_feed)) = Some (leaf ''title'' ''T'')
   \<and> find_elem ''link'' (hd (children author_feed)) = Some (leaf ''link'' ''L'')
   \<and> rss_parser (table_parser (ParseError ''syntax error'') [(author_xml, author_feed)]) author_xml
        (Some 1) True
       = Inr [''{'' @ [CHR 0x0A]
              @ ''  '' @ quoted ''title'' @ '': '' @ quoted ''T'' @ '','' @ [CHR 0x0A]
              @ ''  '' @ quoted ''link'' @ '': '' @ quoted ''L'' @ '','' @ [CHR 0x0A]
              @ ''  '' @ quoted ''description'' @ '': '' @ quoted '''' @ '','' @ [CHR 0x0A]
              @ ''  '' @ quoted ''items'' @ '': ['' @ [CHR 0x0A]
              @ ''    {'' @ [CHR 0x0A]
              @ ''      '' @ quoted ''title'' @ '': '' @ quoted ''a'' @ '','' @ [CHR 0x0A]
              @ ''      '' @ quoted ''pubDate'' @ '': '' @ quoted ''P'' @ '','' @ [CHR 0x0A]
              @ ''      '' @ quoted ''link'' @ '': '' @ quoted ''U'' @ '','' @ [CHR 0x0A]
              @ ''      '' @ quoted ''description'' @ '': '' @ quoted ''d'' @ [CHR 0x0A]
              @ ''    }'' @ [CHR 0x0A]
              @ ''  ]'' @ [CHR 0x0A]
              @ ''}'']
   \<and> (\<exists>out. rss_parser (table_parser (ParseError ''syntax error'') [(author_xml, author_feed)]) author_xml
                (Some 1) False = Inr out
            \<and> ''Author: A'' \<in> set out)"
proof -
  let ?p = "table_parser (ParseError ''syntax error'') [(author_xml, author_feed)]"
  let ?ch = "hd (children author_feed)"
  let ?item = "Element ''item'' None [leaf ''title'' ''a'', leaf ''author'' ''A'',
       leaf ''pubDate'' ''P'', leaf ''link'' ''U'', leaf ''category'' ''x'',
       leaf ''category'' ''y'', leaf ''description'' ''d'']"
  have h1: "?p author_xml = Inr author_feed" by (simp add: table_parser_def)
  have h2: "find_elem ''channel'' author_feed = Some ?ch"
    by (simp add: find_elem_def author_feed_def rss_doc_def)
  have h3: "find_elem ''title'' ?ch = Some (leaf ''title'' ''T'')"
    by (simp add: find_elem_def author_feed_def rss_doc_def leaf_def)
  have h4: "find_elem ''link'' ?ch = Some (leaf ''link'' ''L'')"
    by (simp add: find_elem_def author_feed_def rss_doc_def leaf_def)
  have kept: "apply_limit (Some 1) (findall ''item'' ?ch) = [?item]"
    by (simp add: apply_limit_def slice_to_def findall_def author_feed_def rss_doc_def
        leaf_def Let_def)
  have au: "text_or_empty ''author'' ?item = Some ''A''"
    by (simp add: text_or_empty_def find_elem_def leaf_def)
  note inst = json_document [of ?p author_xml author_feed ?ch "leaf ''title'' ''T''"
      "leaf ''link'' ''L''" "Some 1", OF h1 h2 h3 h4]
  from inst have "rss_parser ?p author_xml (Some 1) True =
      Inr [spec_json_document (etext (leaf ''title'' ''T'')) (etext (leaf ''link'' ''L''))
             (text_or_empty ''description'' ?ch) (apply_limit (Some 1) (findall ''item'' ?ch))]"
    by blast
  then have r1: "rss_parser ?p author_xml (Some 1) True
       = Inr [''{'' @ [CHR 0x0A]
              @ ''  '' @ quoted ''title'' @ '': '' @ quoted ''T'' @ '','' @ [CHR 0x0A]
              @ ''  '' @ quoted ''link'' @ '': '' @ quoted ''L'' @ '','' @ [CHR 0x0A]
              @ ''  '' @ quoted ''description'' @ '': '' @ quoted '''' @ '','' @ [CHR 0x0A]
              @ ''  '' @ quoted ''items'' @ '': ['' @ [CHR 0x0A]
              @ ''    {'' @ [CHR 0x0A]
              @ ''      '' @ quoted ''title'' @ '': '' @ quoted ''a'' @ '','' @ [CHR 0x0A]
              @ ''      '' @ quoted ''pubDate'' @ '': '' @ quoted ''P'' @ '','' @ [CHR 0x0A]
              @ ''      '' @ quoted ''link'' @ '': '' @ quoted ''U'' @ '','' @ [CHR 0x0A]
              @ ''      '' @ quoted ''description'' @ '': '' @ quoted ''d'' @ [CHR 0x0A]
              @ ''    }'' @ [CHR 0x0A]
              @ ''  ]'' @ [CHR 0x0A]
              @ ''}'']"
    unfolding kept
    by (simp add: spec_json_document_def spec_json_item_def spec_json_value_def
        encode_basestring_def escape_char_def quoted_def text_or_empty_def find_elem_def
        author_feed_def rss_doc_def leaf_def)
  from inst have "\<forall>item a. item \<in> set (apply_limit (Some 1) (findall ''item'' ?ch))
           \<and> text_or_empty ''author'' item = Some a \<and> a \<noteq> []
         \<longrightarrow> (\<exists>out. rss_parser ?p author_xml (Some 1) False = Inr out
                  \<and> (''Author: '' @ a) \<in> set out)"
    by blast
  then have r2: "\<exists>out. rss_parser ?p author_xml (Some 1) False = Inr out
                  \<and> ''Author: A'' \<in> set out"
    unfolding kept using au by force
  from h1 h2 h3 h4 r1 r2 show ?thesis by (intro conjI)
qed

section \<open>A field present without text\<close>

text \<open>
  C3. The specification requires a field that is present without text to be rendered as
  an absent one, in JSON mode as the empty string and never as \<^verbatim>\<open>null\<close>. The code does
  not do so: the conditional \<^verbatim>\<open>item.find('pubDate').text if ... is not None else ""\<close>
  gives the empty string for an absent \<^verbatim>\<open>pubDate\<close> but passes the \<^verbatim>\<open>None\<close> of an empty
  element on, and \<^verbatim>\<open>json.dumps\<close> writes it as \<^verbatim>\<open>null\<close>. The outputs for
  \<^verbatim>\<open><item><pubDate></pubDate></item>\<close> and for \<^verbatim>\<open><item></item>\<close> differ in that line.
\<close>

theorem empty_pubdate_json_null:
  "rss_parser pubdate_library empty_pubdate_xml None True
     = Inr [''{'' @ [CHR 0x0A]
            @ ''  '' @ quoted ''title'' @ '': '' @ quoted ''T'' @ '','' @ [CHR 0x0A]
            @ ''  '' @ quoted ''link'' @ '': '' @ quoted ''L'' @ '','' @ [CHR 0x0A]
            @ ''  '' @ quoted ''description'' @ '': '' @ quoted '''' @ '','' @ [CHR 0x0A]
            @ ''  '' @ quoted ''items'' @ '': ['' @ [CHR 0x0A]
            @ ''    {'' @ [CHR 0x0A]
            @ ''      '' @ quoted ''title'' @ '': '' @ quoted '''' @ '','' @ [CHR 0x0A]
            @ ''      '' @ quoted ''pubDate'' @ '': null'' @ '','' @ [CHR 0x0A]
            @ ''      '' @ quoted ''link'' @ '': '' @ quoted '''' @ '','' @ [CHR 0x0A]
            @ ''      '' @ quoted ''description'' @ '': '' @ quoted '''' @ [CHR 0x0A]
            @ ''    }'' @ [CHR 0x0A]
            @ ''  ]'' @ [CHR 0x0A]
            @ ''}'']
   \<and> rss_parser pubdate_library no_pubdate_xml None True
     = Inr [''{'' @ [CHR 0x0A]
            @ ''  '' @ quoted ''title'' @ '': '' @ quoted ''T'' @ '','' @ [CHR 0x0A]
            @ ''  '' @ quoted ''link'' @ '': '' @ quoted ''L'' @ '','' @ [CHR 0x0A]
            @ ''  '' @ quoted ''description'' @ '': '' @ quoted '''' @ '','' @ [CHR 0x0A]
            @ ''  '' @ quoted ''items'' @ '': ['' @ [CHR 0x0A]
            @ ''    {'' @ [CHR 0x0A]
            @ ''      '' @ quoted ''title'' @ '': '' @ quoted '''' @ '','' @ [CHR 0x0A]
            @ ''      '' @ quoted ''pubDate'' @ '': '' @ quoted '''' @ '','' @ [CHR 0x0A]
            @ ''      '' @ quoted ''link'' @ '': '' @ quoted '''' @ '','' @ [CHR 0x0A]
            @ ''      '' @ quoted ''description'' @ '': '' @ quoted '''' @ [CHR 0x0A]
            @ ''    }'' @ [CHR 0x0A]
            @ ''  ]'' @ [CHR 0x0A]
            @ ''}'']
   \<and> rss_parser pubdate_library empty_pubdate_xml None True
       \<noteq> rss_parser pubdate_library no_pubdate_xml None True"
proof -
  let ?che = "Element ''channel'' None [leaf ''title'' ''T'', leaf ''link'' ''L'',
     Element ''item'' None [Element ''pubDate'' None []]]"
  let ?chn = "Element ''channel'' None [leaf ''title'' ''T'', leaf ''link'' ''L'',
     Element ''item'' None []]"
  have ce: "find_elem ''channel'' empty_pubdate_feed = Some ?che"
    by (simp add: find_elem_def empty_pubdate_feed_def rss_doc_def)
  have cn: "find_elem ''channel'' no_pubdate_feed = Some ?chn"
    by (simp add: find_elem_def no_pubdate_feed_def rss_doc_def)
  have te: "find_elem ''title'' ?che = Some (leaf ''title'' ''T'')"
    and le: "find_elem ''link'' ?che = Some (leaf ''link'' ''L'')"
    and tn: "find_elem ''title'' ?chn = Some (leaf ''title'' ''T'')"
    and ln: "find_elem ''link'' ?chn = Some (leaf ''link'' ''L'')"
    by (simp_all add: find_elem_def leaf_def)
  have "rss_parser pubdate_library empty_pubdate_xml None True =
      Inr [spec_json_document (etext (leaf ''title'' ''T'')) (etext (leaf ''link'' ''L''))
             (text_or_empty ''description'' ?che) (apply_limit None (findall ''item'' ?che))]"
    using rss_parser_feed [of pubdate_library empty_pubdate_xml empty_pubdate_feed ?che
      "leaf ''title'' ''T''" "leaf ''link'' ''L''" None True, OF pubdate_library_empty ce te le]
    by (simp only: dumps_document if_True)
  then have e: "rss_parser pubdate_library empty_pubdate_xml None True =
      Inr [spec_json_document (Some ''T'') (Some ''L'') (Some [])
             [Element ''item'' None [Element ''pubDate'' None []]]]"
    by (simp add: leaf_def find_elem_def findall_def apply_limit_def text_or_empty_def)
  have "rss_parser pubdate_library no_pubdate_xml None True =
      Inr [spec_json_document (etext (leaf ''title'' ''T'')) (etext (leaf ''link'' ''L''))
             (text_or_empty ''description'' ?chn) (apply_limit None (findall ''item'' ?chn))]"
    using rss_parser_feed [of pubdate_library no_pubdate_xml no_pubdate_feed ?chn
      "leaf ''title'' ''T''" "leaf ''link'' ''L''" None True, OF pubdate_library_no cn tn ln]
    by (simp only: dumps_document if_True)
  then have n: "rss_parser pubdate_library no_pubdate_xml None True =
      Inr [spec_json_document (Some ''T'') (Some ''L'') (Some []) [Element ''item'' None []]]"
    by (simp add: leaf_def find_elem_def findall_def apply_limit_def text_or_empty_def)
  show ?thesis unfolding e n
    by (simp add: spec_json_document_def spec_json_item_def spec_json_value_def
        encode_basestring_def escape_char_def quoted_def text_or_empty_def find_elem_def)
qed

end
